theory Spec2Isabelle
  imports Main "HOL-Library.Word"
begin

unbundle bit_operations_syntax

section \<open>Common vocabulary\<close>

text \<open>
  A Python \<open>bytes\<close> object is a list of 8-bit words. Python integers are \<open>int\<close>.
  A float32 value is represented by its IEEE-754 bit pattern, a 32-bit word: the
  properties below concern the byte order in which those four bytes travel.
\<close>

type_synonym byte = "8 word"
type_synonym float32 = "32 word"

datatype py_error =
    IndexError
  | ValueError
  | KeyError
  | AssertionError
  | OverflowError
  | UnicodeDecodeError
  | Exception string

datatype log_entry =
    LogInfo string
  | LogWarning string
  | LogError string
  | LogException string

text \<open>Python's \<open>str\<close> and \<open>hex\<close> on a non-negative integer, and \<open>str\<close> on a bool.\<close>

definition digit_char :: "nat \<Rightarrow> char" where
  "digit_char d = ''0123456789abcdef'' ! d"

fun digits_base :: "nat \<Rightarrow> nat \<Rightarrow> string" where
  "digits_base b n =
     (if b < 2 \<or> n < b then [digit_char n]
      else digits_base b (n div b) @ [digit_char (n mod b)])"

declare digits_base.simps [simp del]

definition str_nat :: "nat \<Rightarrow> string" where
  "str_nat n = digits_base 10 n"

definition hex_nat :: "nat \<Rightarrow> string" where
  "hex_nat n = ''0x'' @ digits_base 16 n"

definition str_bool :: "bool \<Rightarrow> string" where
  "str_bool b = (if b then ''True'' else ''False'')"

section \<open>connections/sim/sim_connection.py\<close>

subsection \<open>Constants and tables\<close>

definition SimRxId_CONFIG :: byte where "SimRxId_CONFIG = 0x01"
definition SimRxId_BUZZER :: byte where "SimRxId_BUZZER = 0x07"
definition SimRxId_DIGITAL_PIN_WRITE :: byte where "SimRxId_DIGITAL_PIN_WRITE = 0x50"
definition SimRxId_RADIO :: byte where "SimRxId_RADIO = 0x52"
definition SimRxId_ANALOG_READ :: byte where "SimRxId_ANALOG_READ = 0x61"
definition SimRxId_SENSOR_READ :: byte where "SimRxId_SENSOR_READ = 0x73"

definition SimTxId_RADIO :: int where "SimTxId_RADIO = 0x52"
definition SimTxId_ANALOG_READ :: int where "SimTxId_ANALOG_READ = 0x61"
definition SimTxId_SENSOR_READ :: int where "SimTxId_SENSOR_READ = 0x73"

definition LOG_HISTORY_SIZE :: nat where "LOG_HISTORY_SIZE = 500"

datatype SensorType = GPS | IMU | ACCELEROMETER | BAROMETER | TEMPERATURE | THERMOCOUPLE

definition ID_TO_SENSOR :: "byte \<Rightarrow> SensorType option" where
  "ID_TO_SENSOR i =
     (if i = 0x00 then Some GPS
      else if i = 0x01 then Some IMU
      else if i = 0x02 then Some ACCELEROMETER
      else if i = 0x03 then Some BAROMETER
      else if i = 0x04 then Some TEMPERATURE
      else if i = 0x05 then Some THERMOCOUPLE
      else None)"

subsection \<open>Collaborators and connection state\<close>

text \<open>
  Every call the bridge makes on a collaborator (the radio relay \<open>_xbee\<close>, the hardware
  model \<open>_hw_sim\<close>, the firmware subprocess \<open>rocket\<close> and its stdin pipe, the read-loop
  thread) is recorded, in order, as an event. Collaborators are taken to return
  normally. The values the hardware model returns are parameters: they may depend on
  every call made so far.
\<close>

datatype event =
    XbeeSendToRocket "byte list"
  | XbeeRecievedFromRocket "byte list"
  | XbeeShutdown
  | HwDigitalWrite int int
  | HwAnalogRead int
  | HwSensorRead SensorType
  | HwShutdown
  | StdinWrite byte
  | StdinFlush
  | RocketKill
  | ThreadJoin

record hw_sim =
  analog_read :: "event list \<Rightarrow> int \<Rightarrow> int"
  sensor_read :: "event list \<Rightarrow> SensorType \<Rightarrow> float32 list"

record sim_conn =
  hwid :: string
  bigEndianInts :: "bool option"
  bigEndianFloats :: "bool option"
  stdout_pending :: "byte list"
  stdout_history :: "byte list"
  is_shutting_down :: bool
  events :: "event list"
  logger :: "log_entry list"

type_synonym 'a action = "sim_conn \<Rightarrow> (py_error + 'a) \<times> sim_conn"

definition emit :: "event list \<Rightarrow> sim_conn \<Rightarrow> sim_conn" where
  "emit es s = s\<lparr>events := events s @ es\<rparr>"

definition log_add :: "log_entry list \<Rightarrow> sim_conn \<Rightarrow> sim_conn" where
  "log_add ls s = s\<lparr>logger := logger s @ ls\<rparr>"

subsection \<open>StreamFilter\<close>

text \<open>
  Modelled from the spec: \<open>StreamFilter\<close> (connections/sim/stream_filter.py) is not among
  the sources. \<open>read(n)\<close> returns exactly \<open>n\<close> bytes, or fewer when the source closes
  first; the bytes still to come before the source closes are \<open>stdout_pending\<close>. Every
  byte read enters a bounded history holding the last \<open>LOG_HISTORY_SIZE\<close> entries, which
  \<open>getHistory\<close> returns oldest first.
\<close>

definition keep_last :: "nat \<Rightarrow> 'a list \<Rightarrow> 'a list" where
  "keep_last n xs = drop (length xs - n) xs"

definition stdout_read :: "nat \<Rightarrow> sim_conn \<Rightarrow> byte list \<times> sim_conn" where
  "stdout_read n s =
     (let got = take n (stdout_pending s)
      in (got, s\<lparr>stdout_pending := drop n (stdout_pending s),
                 stdout_history := keep_last LOG_HISTORY_SIZE (stdout_history s @ got)\<rparr>))"

definition getHistory :: "sim_conn \<Rightarrow> byte list" where
  "getHistory s = stdout_history s"

text \<open>\<open>self.stdout.read(1)[0]\<close>: IndexError when the source has closed.\<close>

definition read_byte :: "byte action" where
  "read_byte s =
     (case stdout_read 1 s of
        ([], s1) \<Rightarrow> (Inl IndexError, s1)
      | (b # _, s1) \<Rightarrow> (Inr b, s1))"

subsection \<open>SimConnection\<close>

definition getLength :: "int action" where
  "getLength s =
     (case stdout_read 2 s of
        ([msb, lsb], s1) \<Rightarrow> (Inr (push_bit 8 (uint msb) OR uint lsb), s1)
      | (_, s1) \<Rightarrow> (Inl ValueError, s1))"

definition send :: "string \<Rightarrow> byte list \<Rightarrow> unit action" where
  "send hwid' data s =
     (if hwid' \<noteq> hwid s
      then (Inl (Exception (''Connection does not support HWID='' @ hwid')), s)
      else (Inr (), emit [XbeeSendToRocket data] s))"

definition broadcast :: "byte list \<Rightarrow> unit action" where
  "broadcast data s = (Inr (), emit [XbeeSendToRocket data] s)"

text \<open>\<open>int.to_bytes(length, "big")\<close>: OverflowError when the value does not fit.\<close>

definition to_bytes_big :: "nat \<Rightarrow> int \<Rightarrow> py_error + byte list" where
  "to_bytes_big len v =
     (if v < 0 \<or> 256 ^ len \<le> v then Inl OverflowError
      else Inr (map (\<lambda>i. word_of_int (v div 256 ^ (len - 1 - i))) [0..<len]))"

definition send_sim_packet :: "int \<Rightarrow> byte list \<Rightarrow> unit action" where
  "send_sim_packet ident data s =
     (case to_bytes_big 1 ident of
        Inl e \<Rightarrow> (Inl e, s)
      | Inr idb \<Rightarrow>
          (case to_bytes_big 2 (int (length data)) of
             Inl e \<Rightarrow> (Inl e, s)
           | Inr lenb \<Rightarrow>
               (Inr (), emit (map StdinWrite (idb @ lenb @ data) @ [StdinFlush]) s)))"

definition send_radio_sim :: "byte list \<Rightarrow> unit action" where
  "send_radio_sim data s = send_sim_packet SimTxId_RADIO data s"

definition shutdown :: "sim_conn \<Rightarrow> sim_conn" where
  "shutdown s =
     emit [XbeeShutdown, HwShutdown, RocketKill, ThreadJoin] (s\<lparr>is_shutting_down := True\<rparr>)"

definition getEndianness :: "unit action" where
  "getEndianness s =
     (case read_byte s of
        (Inl e, s1) \<Rightarrow> (Inl e, s1)
      | (Inr ident, s1) \<Rightarrow>
          if ident \<noteq> SimRxId_CONFIG then (Inl AssertionError, s1)
          else
            (case getLength s1 of
               (Inl e, s2) \<Rightarrow> (Inl e, s2)
             | (Inr len, s2) \<Rightarrow>
                 if len \<noteq> 8 then (Inl AssertionError, s2)
                 else
                   (case stdout_read (nat len) s2 of (data, s3) \<Rightarrow>
                      if length data \<le> 0 then (Inl IndexError, s3)
                      else
                        let s4 = s3\<lparr>bigEndianInts := Some (data ! 0 = 0x04)\<rparr>
                        in if length data \<le> 4 then (Inl IndexError, s4)
                           else
                             let s5 = s4\<lparr>bigEndianFloats := Some (data ! 4 = 0xC0)\<rparr>
                             in (Inr (),
                                 log_add [LogInfo (''SIM: Big Endian Ints - ''
                                            @ str_bool (data ! 0 = 0x04)
                                            @ '', Big Endian Floats - ''
                                            @ str_bool (data ! 4 = 0xC0)
                                            @ '' (HWID='' @ hwid s5 @ '')'')] s5))))"

definition handleBuzzer :: "unit action" where
  "handleBuzzer s =
     (case getLength s of
        (Inl e, s1) \<Rightarrow> (Inl e, s1)
      | (Inr len, s1) \<Rightarrow>
          if len \<noteq> 1 then (Inl AssertionError, s1)
          else
            (case stdout_read (nat len) s1 of
               ([], s2) \<Rightarrow> (Inl IndexError, s2)
             | (songType # _, s2) \<Rightarrow>
                 (Inr (), log_add [LogInfo (''SIM: Bell rang with song type ''
                                     @ str_nat (unat songType)
                                     @ '' (HWID='' @ hwid s2 @ '')'')] s2)))"

definition handleDigitalPinWrite :: "unit action" where
  "handleDigitalPinWrite s =
     (case getLength s of
        (Inl e, s1) \<Rightarrow> (Inl e, s1)
      | (Inr len, s1) \<Rightarrow>
          if len \<noteq> 2 then (Inl AssertionError, s1)
          else
            (case stdout_read 2 s1 of
               ([pin, val], s2) \<Rightarrow>
                 (Inr (), log_add [LogInfo (''SIM: Pin '' @ str_nat (unat pin) @ '' set to ''
                                     @ str_nat (unat val)
                                     @ '' (HWID='' @ hwid s2 @ '')'')]
                            (emit [HwDigitalWrite (uint pin) (uint val)] s2))
             | (_, s2) \<Rightarrow> (Inl ValueError, s2)))"

definition handleRadio :: "unit action" where
  "handleRadio s =
     (case getLength s of
        (Inl e, s1) \<Rightarrow> (Inl e, s1)
      | (Inr len, s1) \<Rightarrow>
          let s2 = (if len = 0
                    then log_add [LogWarning (''Empty SIM radio packet received (HWID=''
                                    @ hwid s1 @ '')'')] s1
                    else s1)
          in (case stdout_read (nat len) s2 of (data, s3) \<Rightarrow>
                (Inr (), emit [XbeeRecievedFromRocket data] s3)))"

definition handleAnalogRead :: "hw_sim \<Rightarrow> unit action" where
  "handleAnalogRead hw s =
     (case getLength s of
        (Inl e, s1) \<Rightarrow> (Inl e, s1)
      | (Inr len, s1) \<Rightarrow>
          if len \<noteq> 1 then (Inl AssertionError, s1)
          else
            (case stdout_read (nat len) s1 of
               ([], s2) \<Rightarrow> (Inl IndexError, s2)
             | (pin # _, s2) \<Rightarrow>
                 let v = analog_read hw (events s2) (uint pin);
                     s3 = emit [HwAnalogRead (uint pin)] s2
                 in (case to_bytes_big 2 v of
                       Inl e \<Rightarrow> (Inl e, s3)
                     | Inr result \<Rightarrow> send_sim_packet SimTxId_ANALOG_READ result s3)))"

text \<open>
  \<open>struct.pack(f"{endianness}{n}f", *sensor_data)\<close> on float32 values: four bytes per
  value, most significant byte first under \<open>">"\<close>, least significant first under \<open>"<"\<close>.
\<close>

definition pack_f :: "bool \<Rightarrow> float32 \<Rightarrow> byte list" where
  "pack_f big w =
     (let be = [ucast (drop_bit 24 w), ucast (drop_bit 16 w), ucast (drop_bit 8 w), ucast w]
      in if big then be else rev be)"

definition struct_pack_floats :: "bool \<Rightarrow> float32 list \<Rightarrow> byte list" where
  "struct_pack_floats big ws = concat (map (pack_f big) ws)"

definition handleSensorRead :: "hw_sim \<Rightarrow> unit action" where
  "handleSensorRead hw s =
     (case getLength s of
        (Inl e, s1) \<Rightarrow> (Inl e, s1)
      | (Inr len, s1) \<Rightarrow>
          if len \<noteq> 1 then (Inl AssertionError, s1)
          else
            (case stdout_read (nat len) s1 of
               ([], s2) \<Rightarrow> (Inl IndexError, s2)
             | (sensor_id # _, s2) \<Rightarrow>
                 (case ID_TO_SENSOR sensor_id of
                    None \<Rightarrow> (Inl KeyError, s2)
                  | Some kind \<Rightarrow>
                      let sensor_data = sensor_read hw (events s2) kind;
                          s3 = emit [HwSensorRead kind] s2;
                          result = struct_pack_floats (bigEndianFloats s3 = Some True) sensor_data
                      in send_sim_packet SimTxId_SENSOR_READ result s3)))"

datatype handler =
  HandleBuzzer | HandleDigitalPinWrite | HandleRadio | HandleAnalogRead | HandleSensorRead

text \<open>The class-level table \<open>packetHandlers\<close>; Config is deliberately not in it.\<close>

definition packetHandlers :: "byte \<Rightarrow> handler option" where
  "packetHandlers i =
     (if i = SimRxId_BUZZER then Some HandleBuzzer
      else if i = SimRxId_DIGITAL_PIN_WRITE then Some HandleDigitalPinWrite
      else if i = SimRxId_RADIO then Some HandleRadio
      else if i = SimRxId_ANALOG_READ then Some HandleAnalogRead
      else if i = SimRxId_SENSOR_READ then Some HandleSensorRead
      else None)"

fun call_handler :: "hw_sim \<Rightarrow> handler \<Rightarrow> unit action" where
  "call_handler hw HandleBuzzer = handleBuzzer"
| "call_handler hw HandleDigitalPinWrite = handleDigitalPinWrite"
| "call_handler hw HandleRadio = handleRadio"
| "call_handler hw HandleAnalogRead = handleAnalogRead hw"
| "call_handler hw HandleSensorRead = handleSensorRead hw"

definition violation_log :: "sim_conn \<Rightarrow> log_entry list" where
  "violation_log s =
     [LogError (''SIM protocol violation!!! Shutting down. (HWID='' @ hwid s @ '')'')]
     @ map (\<lambda>b. LogError (hex_nat (unat b))) (getHistory s)
     @ [LogError ''^^^^ violation.'']"

text \<open>
  The body of the \<open>try\<close> block of \<open>_run\<close>: the \<open>while True\<close> loop. It ends with
  \<open>Inr ()\<close> at the \<open>return\<close> of the protocol-violation branch and with \<open>Inl e\<close> when
  an exception leaves the loop. Each iteration consumes at least the opcode byte.
\<close>

lemma stdout_read_pending:
  "stdout_read n s = (got, s1) \<Longrightarrow> stdout_pending s1 = drop n (stdout_pending s)"
  by (auto simp: stdout_read_def Let_def)

lemma read_byte_pending:
  "read_byte s = (Inr b, s1) \<Longrightarrow> length (stdout_pending s1) < length (stdout_pending s)"
  by (cases "stdout_pending s") (auto simp: read_byte_def stdout_read_def Let_def split: list.splits)

lemma getLength_pending:
  "getLength s = (r, s1) \<Longrightarrow> length (stdout_pending s1) \<le> length (stdout_pending s)"
  by (auto simp: getLength_def stdout_read_def Let_def split: list.splits)

lemma send_sim_packet_pending:
  "send_sim_packet i d s = (r, s1) \<Longrightarrow> stdout_pending s1 = stdout_pending s"
  by (auto simp: send_sim_packet_def emit_def split: sum.splits)

lemma handleBuzzer_pending:
  "handleBuzzer s = (r, s') \<Longrightarrow> length (stdout_pending s') \<le> length (stdout_pending s)"
  unfolding handleBuzzer_def
  by (auto simp: log_add_def stdout_read_def Let_def
      split: prod.splits sum.splits if_splits list.splits dest!: getLength_pending)

lemma handleDigitalPinWrite_pending:
  "handleDigitalPinWrite s = (r, s') \<Longrightarrow> length (stdout_pending s') \<le> length (stdout_pending s)"
  unfolding handleDigitalPinWrite_def
  by (auto simp: log_add_def emit_def stdout_read_def Let_def
      split: prod.splits sum.splits if_splits list.splits dest!: getLength_pending)

lemma handleRadio_pending:
  "handleRadio s = (r, s') \<Longrightarrow> length (stdout_pending s') \<le> length (stdout_pending s)"
  unfolding handleRadio_def
  by (auto simp: log_add_def emit_def stdout_read_def Let_def
      split: prod.splits sum.splits if_splits dest!: getLength_pending)

lemma handleAnalogRead_pending:
  "handleAnalogRead hw s = (r, s') \<Longrightarrow> length (stdout_pending s') \<le> length (stdout_pending s)"
  unfolding handleAnalogRead_def
  by (auto simp: emit_def stdout_read_def Let_def
      split: prod.splits sum.splits if_splits list.splits
      dest!: getLength_pending send_sim_packet_pending)

lemma handleSensorRead_pending:
  "handleSensorRead hw s = (r, s') \<Longrightarrow> length (stdout_pending s') \<le> length (stdout_pending s)"
  unfolding handleSensorRead_def
  by (auto simp: emit_def stdout_read_def Let_def
      split: prod.splits sum.splits if_splits list.splits option.splits
      dest!: getLength_pending send_sim_packet_pending)

lemma call_handler_pending:
  "call_handler hw h s = (r, s') \<Longrightarrow> length (stdout_pending s') \<le> length (stdout_pending s)"
  by (cases h)
    (auto dest: handleBuzzer_pending handleDigitalPinWrite_pending handleRadio_pending
       handleAnalogRead_pending handleSensorRead_pending)

function run_loop :: "hw_sim \<Rightarrow> unit action" where
  "run_loop hw s =
     (case read_byte s of
        (Inl e, s1) \<Rightarrow> (Inl e, s1)
      | (Inr ident, s1) \<Rightarrow>
          (case packetHandlers ident of
             None \<Rightarrow> (Inr (), log_add (violation_log s1) s1)
           | Some h \<Rightarrow>
               (case call_handler hw h s1 of
                  (Inl e, s2) \<Rightarrow> (Inl e, s2)
                | (Inr u, s2) \<Rightarrow> run_loop hw s2)))"
  by pat_completeness auto
termination
  apply (relation "measure (\<lambda>(hw, s). length (stdout_pending s))")
   apply simp
  apply (auto dest!: read_byte_pending [OF sym] call_handler_pending [OF sym])
  done

declare run_loop.simps [simp del]

text \<open>
  \<open>_run\<close>: the loop inside \<open>try\<close>, the \<open>except Exception\<close> clause that logs unless the
  shutdown guard is set, and the final warning. The \<open>return\<close> of the violation branch
  leaves the function at once, so the final warning is not logged on that path.
\<close>

definition run :: "hw_sim \<Rightarrow> sim_conn \<Rightarrow> sim_conn" where
  "run hw s =
     (case run_loop hw s of
        (Inr u, s1) \<Rightarrow> s1
      | (Inl ex, s1) \<Rightarrow>
          log_add [LogWarning (''SIM connection thread shut down (HWID='' @ hwid s1 @ '')'')]
            (if \<not> is_shutting_down s1
             then log_add [LogException (''Error in SIM connection. (HWID='' @ hwid s1 @ '')'')] s1
             else s1))"

section \<open>main_window/packet_parser.py\<close>

subsection \<open>Constants and tables\<close>

text \<open>
  The module \<open>subpacket_ids\<close> is not among the sources: the values of \<open>SubpacketEnum\<close>
  that the parser uses, the list \<open>get_list_of_sensor_IDs()\<close> and the predicate
  \<open>isSubpacketID\<close> are parameters.
\<close>

record subpacket_ids =
  MESSAGE_value :: int
  EVENT_value :: int
  CONFIG_value :: int
  TIME_value :: int
  get_list_of_sensor_IDs :: "int list"
  isSubpacketID :: "int \<Rightarrow> bool"

text \<open>
  \<open>DeviceType\<close> (module \<open>device_manager\<close>) is not among the sources either: its members
  are those \<open>ID_TO_DEVICE\<close> names, printed as an \<open>Enum\<close> member prints.
\<close>

datatype DeviceType = TANTALUS_STAGE_1 | TANTALUS_STAGE_2 | CO_PILOT

definition ID_TO_DEVICE :: "byte \<Rightarrow> DeviceType option" where
  "ID_TO_DEVICE i =
     (if i = 0x00 then Some TANTALUS_STAGE_1
      else if i = 0x01 then Some TANTALUS_STAGE_2
      else if i = 0x02 then Some CO_PILOT
      else None)"

definition str_DeviceType :: "DeviceType \<Rightarrow> string" where
  "str_DeviceType d =
     (case d of
        TANTALUS_STAGE_1 \<Rightarrow> ''DeviceType.TANTALUS_STAGE_1''
      | TANTALUS_STAGE_2 \<Rightarrow> ''DeviceType.TANTALUS_STAGE_2''
      | CO_PILOT \<Rightarrow> ''DeviceType.CO_PILOT'')"

definition DEVICE_TYPE :: string where "DEVICE_TYPE = ''ROCKET_TYPE''"
definition IS_SIM :: string where "IS_SIM = ''IS_SIM''"
definition VERSION_ID :: string where "VERSION_ID = ''VERSION_ID''"
definition VERSION_ID_LEN :: nat where "VERSION_ID_LEN = 40"

subsection \<open>Parsed records and parser state\<close>

text \<open>
  A parsed record is a Python dict whose keys are integers (subpacket ids) or strings.
\<close>

datatype key = KInt int | KStr string

datatype pyval =
    VInt int
  | VStr string
  | VBool bool
  | VFloat float32
  | VDevice DeviceType

type_synonym pydict = "key \<rightharpoonup> pyval"

datatype parser_fn = Parse_message | Parse_event | Parse_config | Parse_single_sensor

text \<open>
  The parser object with its two endianness fields and its id-to-parser table, together
  with what its methods act on: the unread bytes of the \<open>BytesIO\<close> argument, the log and
  the two event counters.
\<close>

record packet_parser =
  big_endian_ints :: "bool option"
  big_endian_floats :: "bool option"
  packetTypeToParser :: "int \<rightharpoonup> parser_fn"
  byte_stream :: "byte list"
  parser_log :: "log_entry list"
  single_sensor_events :: nat
  config_events :: nat

type_synonym 'a parse = "packet_parser \<Rightarrow> (py_error + 'a) \<times> packet_parser"

definition PacketParser_init :: "subpacket_ids \<Rightarrow> byte list \<Rightarrow> packet_parser" where
  "PacketParser_init ids bs =
     \<lparr>big_endian_ints = None,
      big_endian_floats = None,
      packetTypeToParser =
        fold (\<lambda>i m. m(i \<mapsto> Parse_single_sensor)) (get_list_of_sensor_IDs ids)
          (Map.empty(MESSAGE_value ids \<mapsto> Parse_message,
                     EVENT_value ids \<mapsto> Parse_event,
                     CONFIG_value ids \<mapsto> Parse_config)),
      byte_stream = bs,
      parser_log = [],
      single_sensor_events = 0,
      config_events = 0\<rparr>"

definition set_endianness :: "bool \<Rightarrow> bool \<Rightarrow> packet_parser \<Rightarrow> packet_parser" where
  "set_endianness bi bf p = p\<lparr>big_endian_ints := Some bi, big_endian_floats := Some bf\<rparr>"

definition register_packet :: "int \<Rightarrow> parser_fn \<Rightarrow> packet_parser \<Rightarrow> packet_parser" where
  "register_packet packetType parsing_fn p =
     p\<lparr>packetTypeToParser := (packetTypeToParser p)(packetType \<mapsto> parsing_fn)\<rparr>"

text \<open>\<open>BytesIO.read(n)\<close>: up to \<open>n\<close> bytes, fewer at the end of the buffer.\<close>

definition stream_read :: "nat \<Rightarrow> packet_parser \<Rightarrow> byte list \<times> packet_parser" where
  "stream_read n p = (take n (byte_stream p), p\<lparr>byte_stream := drop n (byte_stream p)\<rparr>)"

definition plog :: "log_entry \<Rightarrow> packet_parser \<Rightarrow> packet_parser" where
  "plog l p = p\<lparr>parser_log := parser_log p @ [l]\<rparr>"

text \<open>\<open>bytes.decode('ascii')\<close>: fails on any byte above 0x7F.\<close>

definition decode_ascii :: "byte list \<Rightarrow> py_error + string" where
  "decode_ascii bs =
     (if \<exists>b \<in> set bs. 0x80 \<le> b then Inl UnicodeDecodeError
      else Inr (map (\<lambda>b. char_of (unat b)) bs))"

subsection \<open>PacketParser\<close>

text \<open>
  \<open>struct.unpack('>I' | '<I')\<close> and \<open>struct.unpack('>f' | '<f')\<close> on four bytes. The
  format is big-endian when the flag is truthy; \<open>None\<close> is falsy.
\<close>

definition unpack_I :: "bool \<Rightarrow> byte list \<Rightarrow> int" where
  "unpack_I big bs = foldl (\<lambda>acc b. acc * 256 + uint b) 0 (if big then bs else rev bs)"

definition unpack_f :: "bool \<Rightarrow> byte list \<Rightarrow> float32" where
  "unpack_f big bs =
     foldl (\<lambda>acc b. push_bit 8 acc OR ucast b) 0 (if big then bs else rev bs)"

definition fourtofloat :: "packet_parser \<Rightarrow> byte list \<Rightarrow> py_error + float32" where
  "fourtofloat p byte_list =
     (if length byte_list \<noteq> 4 then Inl AssertionError
      else Inr (unpack_f (big_endian_floats p = Some True) byte_list))"

definition fourtoint :: "packet_parser \<Rightarrow> byte list \<Rightarrow> py_error + int" where
  "fourtoint p byte_list =
     (if length byte_list \<noteq> 4 then Inl AssertionError
      else Inr (unpack_I (big_endian_ints p = Some True) byte_list))"

definition bitfrombyte :: "int \<Rightarrow> nat \<Rightarrow> int" where
  "bitfrombyte val targetIndex = drop_bit targetIndex (val AND push_bit targetIndex 1)"

text \<open>A header is the pair of subpacket id and timestamp.\<close>

type_synonym header = "int \<times> int"

definition header :: "subpacket_ids \<Rightarrow> header parse" where
  "header ids p =
     (case stream_read 1 p of
        ([], p1) \<Rightarrow> (Inl IndexError, p1)
      | (b # _, p1) \<Rightarrow>
          let subpacket_id = uint b
          in if \<not> isSubpacketID ids subpacket_id
             then (Inl ValueError,
                   plog (LogError (''Subpacket id '' @ str_nat (nat subpacket_id)
                                     @ '' not valid.'')) p1)
             else
               (case stream_read 4 p1 of (ts, p2) \<Rightarrow>
                  (case fourtoint p2 ts of
                     Inl e \<Rightarrow> (Inl e, p2)
                   | Inr timestamp \<Rightarrow> (Inr (subpacket_id, timestamp), p2))))"

definition message :: "subpacket_ids \<Rightarrow> header \<Rightarrow> pydict parse" where
  "message ids hdr p =
     (case stream_read 1 p of
        ([], p1) \<Rightarrow> (Inl IndexError, p1)
      | (len # _, p1) \<Rightarrow>
          (case stream_read (unat len) p1 of (byte_data, p2) \<Rightarrow>
             (case decode_ascii byte_data of
                Inl e \<Rightarrow> (Inl e, p2)
              | Inr txt \<Rightarrow>
                  (Inr (Map.empty(KInt (MESSAGE_value ids) \<mapsto> VStr txt)),
                   plog (LogInfo (''Incoming message: '' @ txt)) p2))))"

definition event :: "subpacket_ids \<Rightarrow> header \<Rightarrow> pydict parse" where
  "event ids hdr p =
     (case stream_read 1 p of
        ([], p1) \<Rightarrow> (Inl IndexError, p1)
      | (b # _, p1) \<Rightarrow> (Inr (Map.empty(KInt (EVENT_value ids) \<mapsto> VInt (uint b))), p1))"

definition config :: "subpacket_ids \<Rightarrow> header \<Rightarrow> pydict parse" where
  "config ids hdr p =
     (case stream_read 1 p of
        ([], p1) \<Rightarrow> (Inl IndexError, p1)
      | (sim # _, p1) \<Rightarrow>
          (case stream_read 1 p1 of
             ([], p2) \<Rightarrow> (Inl IndexError, p2)
           | (dev # _, p2) \<Rightarrow>
               (case ID_TO_DEVICE dev of
                  None \<Rightarrow> (Inl KeyError, p2)
                | Some device \<Rightarrow>
                    (case stream_read VERSION_ID_LEN p2 of (version_id, p3) \<Rightarrow>
                       (case decode_ascii version_id of
                          Inl e \<Rightarrow> (Inl e, p3)
                        | Inr txt \<Rightarrow>
                            (Inr (Map.empty(KStr IS_SIM \<mapsto> VBool (sim \<noteq> 0),
                                            KStr DEVICE_TYPE \<mapsto> VDevice device,
                                            KStr VERSION_ID \<mapsto> VStr txt)),
                             (plog (LogInfo (''Config: SIM? '' @ str_bool (sim \<noteq> 0)
                                      @ '', Rocket type = '' @ str_DeviceType device
                                      @ '', Version ID = '' @ txt)) p3)
                               \<lparr>config_events := Suc (config_events p3)\<rparr>))))))"

definition single_sensor :: "subpacket_ids \<Rightarrow> header \<Rightarrow> pydict parse" where
  "single_sensor ids hdr p =
     (let subpacket_id = fst hdr
      in case stream_read 4 p of (bs, p1) \<Rightarrow>
           (case fourtofloat p1 bs of
              Inl e \<Rightarrow> (Inl e, p1)
            | Inr v \<Rightarrow>
                (Inr (Map.empty(KInt subpacket_id \<mapsto> VFloat v)),
                 p1\<lparr>single_sensor_events := Suc (single_sensor_events p1)\<rparr>)))"

fun call_parser :: "subpacket_ids \<Rightarrow> parser_fn \<Rightarrow> header \<Rightarrow> pydict parse" where
  "call_parser ids Parse_message = message ids"
| "call_parser ids Parse_event = event ids"
| "call_parser ids Parse_config = config ids"
| "call_parser ids Parse_single_sensor = single_sensor ids"

definition parse_data :: "subpacket_ids \<Rightarrow> header \<Rightarrow> pydict parse" where
  "parse_data ids hdr p =
     (case packetTypeToParser p (fst hdr) of
        None \<Rightarrow> (Inl KeyError, p)
      | Some f \<Rightarrow> call_parser ids f hdr p)"

definition endianness_not_set :: py_error where
  "endianness_not_set = Exception ''Endianness not set before parsing''"

definition extract_pkt :: "subpacket_ids \<Rightarrow> pydict parse" where
  "extract_pkt ids p =
     (if big_endian_ints p = None \<or> big_endian_floats p = None
      then (Inl endianness_not_set, p)
      else
        (case header ids p of
           (Inl e, p1) \<Rightarrow> (Inl e, p1)
         | (Inr hdr, p1) \<Rightarrow>
             (case (case parse_data ids hdr p1 of
                      (Inl e, p2) \<Rightarrow> (Map.empty, plog (LogException ''Error parsing data'') p2)
                    | (Inr d, p2) \<Rightarrow> (d, p2))
              of (parsed_data, p3) \<Rightarrow>
                (Inr (parsed_data(KInt (TIME_value ids) \<mapsto> VInt (snd hdr))),
                 p3\<lparr>big_endian_ints := None, big_endian_floats := None\<rparr>))))"

section \<open>Observations on a run of the read loop\<close>

fun is_error :: "log_entry \<Rightarrow> bool" where
  "is_error (LogError m) = True"
| "is_error l = False"

text \<open>What no packet handler touches: identity, endianness flags, guard, error log.\<close>

definition fixed_part ::
  "sim_conn \<Rightarrow> string \<times> bool option \<times> bool option \<times> bool \<times> log_entry list" where
  "fixed_part s =
     (hwid s, bigEndianInts s, bigEndianFloats s, is_shutting_down s,
      filter is_error (logger s))"

definition violation_line :: "sim_conn \<Rightarrow> log_entry" where
  "violation_line s =
     LogError (''SIM protocol violation!!! Shutting down. (HWID='' @ hwid s @ '')'')"

definition violation_reports :: "sim_conn \<Rightarrow> nat" where
  "violation_reports s = count_list (logger s) (violation_line s)"


section \<open>Instances used by the examples\<close>

definition conn0 :: sim_conn where
  "conn0 =
     \<lparr>hwid = ''tantalusSIM_CONN_HWID'',
      bigEndianInts = None,
      bigEndianFloats = None,
      stdout_pending = [],
      stdout_history = [],
      is_shutting_down = False,
      events = [],
      logger = []\<rparr>"

definition hw0 :: hw_sim where
  "hw0 = \<lparr>analog_read = (\<lambda>evs pin. 512), sensor_read = (\<lambda>evs kind. [0x3F800000, 0x40000000])\<rparr>"

text \<open>
  An instance of the \<open>subpacket_ids\<close> parameters: the sensor ids are the range
  MIN_SINGLE_SENSOR_ID..MAX_SINGLE_SENSOR_ID of main_window/data_entry_id.py.
\<close>

definition ids0 :: subpacket_ids where
  "ids0 =
     \<lparr>MESSAGE_value = 0x01,
      EVENT_value = 0x02,
      CONFIG_value = 0x03,
      TIME_value = 0x20,
      get_list_of_sensor_IDs = [0x10..0x2F],
      isSubpacketID = (\<lambda>i. (0x01 \<le> i \<and> i \<le> 0x03) \<or> (0x10 \<le> i \<and> i \<le> 0x2F))\<rparr>"

definition parser0 :: "byte list \<Rightarrow> packet_parser" where
  "parser0 bs = set_endianness True True (PacketParser_init ids0 bs)"

definition hello_packet :: "byte list" where
  "hello_packet = [0x01, 0x00, 0x00, 0x00, 0x2A, 0x05, 0x48, 0x45, 0x4C, 0x4C, 0x4F]"

section \<open>Auxiliary facts\<close>

lemma to_bytes_big_1:
  "to_bytes_big (Suc 0) v = (if v < 0 \<or> 256 \<le> v then Inl OverflowError else Inr [word_of_int v])"
  by (simp add: to_bytes_big_def)

lemma to_bytes_big_2:
  "to_bytes_big 2 v =
     (if v < 0 \<or> 65536 \<le> v then Inl OverflowError
      else Inr [word_of_int (v div 256), word_of_int v])"
  by (simp add: to_bytes_big_def numeral_2_eq_2)

lemma getLength_two:
  "stdout_pending s = msb # lsb # rest \<Longrightarrow>
   getLength s =
     (Inr (push_bit 8 (uint msb) OR uint lsb),
      s\<lparr>stdout_pending := rest,
        stdout_history := keep_last LOG_HISTORY_SIZE (stdout_history s @ [msb, lsb])\<rparr>)"
  by (simp add: getLength_def stdout_read_def Let_def)

lemma read_byte_Cons:
  "stdout_pending s = b # rest \<Longrightarrow>
   read_byte s =
     (Inr b,
      s\<lparr>stdout_pending := rest,
        stdout_history := keep_last LOG_HISTORY_SIZE (stdout_history s @ [b])\<rparr>)"
  by (simp add: read_byte_def stdout_read_def Let_def)

section \<open>Endianness negotiation\<close>

text \<open>
  C1. When the stream holds a Config frame (opcode 0x01, length 00 08) with an 8-byte
  payload, \<open>_getEndianness\<close> returns normally, sets ints-big-endian to whether payload
  byte 0 is 0x04 and floats-big-endian to whether payload byte 4 is 0xC0, and leaves
  the bytes after the frame unread.
\<close>

theorem getEndianness_decodes_config:
  assumes "length payload = 8"
    and "stdout_pending s = [0x01, 0x00, 0x08] @ payload @ rest"
  shows "fst (getEndianness s) = Inr ()
       \<and> bigEndianInts (snd (getEndianness s)) = Some (payload ! 0 = 0x04)
       \<and> bigEndianFloats (snd (getEndianness s)) = Some (payload ! 4 = 0xC0)
       \<and> stdout_pending (snd (getEndianness s)) = rest"
proof -
  from assms(1) have "payload \<noteq> []"
    by auto
  with assms show ?thesis
    by (simp add: getEndianness_def read_byte_def getLength_def stdout_read_def
        SimRxId_CONFIG_def log_add_def Let_def)
qed

theorem getEndianness_decodes_config_witness:
  "fst (getEndianness (conn0\<lparr>stdout_pending := [0x01, 0x00, 0x08, 0x04, 0, 0, 0, 0xC0, 0, 0, 0]\<rparr>))
     = Inr ()
   \<and> bigEndianInts
       (snd (getEndianness (conn0\<lparr>stdout_pending := [0x01, 0x00, 0x08, 0x04, 0, 0, 0, 0xC0, 0, 0, 0]\<rparr>)))
     = Some True
   \<and> bigEndianFloats
       (snd (getEndianness (conn0\<lparr>stdout_pending := [0x01, 0x00, 0x08, 0x04, 0, 0, 0, 0xC0, 0, 0, 0]\<rparr>)))
     = Some True"
  using getEndianness_decodes_config
    [of "[0x04, 0, 0, 0, 0xC0, 0, 0, 0]"
        "conn0\<lparr>stdout_pending := [0x01, 0x00, 0x08, 0x04, 0, 0, 0, 0xC0, 0, 0, 0]\<rparr>" "[]"]
  by simp

section \<open>The application-facing send surface\<close>

text \<open>
  C3. \<open>send\<close> with an identity other than the connection's own raises and leaves the
  connection as it was: no call reaches the radio relay. With the connection's own
  identity it does exactly what \<open>broadcast\<close> does: one \<open>send_to_rocket\<close> call on the
  relay with the payload.
\<close>

theorem send_checks_identity:
  "(h \<noteq> hwid s \<longrightarrow>
      send h d s = (Inl (Exception (''Connection does not support HWID='' @ h)), s))
   \<and> (h = hwid s \<longrightarrow>
      send h d s = broadcast d s
      \<and> events (snd (send h d s)) = events s @ [XbeeSendToRocket d])"
  by (simp add: send_def broadcast_def emit_def)

theorem send_checks_identity_witness:
  "send ''other'' [0x41] conn0 = (Inl (Exception ''Connection does not support HWID=other''), conn0)
   \<and> send ''tantalusSIM_CONN_HWID'' [0x41] conn0 = broadcast [0x41] conn0
   \<and> events (snd (send ''tantalusSIM_CONN_HWID'' [0x41] conn0)) = [XbeeSendToRocket [0x41]]"
  using send_checks_identity [of "''other''" conn0 "[0x41]"]
    send_checks_identity [of "''tantalusSIM_CONN_HWID''" conn0 "[0x41]"]
  by (simp add: conn0_def broadcast_def emit_def)

section \<open>AnalogRead\<close>

text \<open>
  C8. Once the read loop has taken the AnalogRead opcode, the handler reads the length
  00 01 and the pin, asks the hardware model, and for every reading that fits 16 bits
  writes to the firmware's stdin the opcode 0x61, the length 00 02 and the reading as
  two bytes, most significant first, then flushes.
\<close>

theorem handleAnalogRead_reply:
  assumes "stdout_pending s = [0x00, 0x01, pin] @ rest"
    and "analog_read hw (events s) (uint pin) = v"
    and "0 \<le> v" and "v < 65536"
  shows "packetHandlers 0x61 = Some HandleAnalogRead
       \<and> fst (handleAnalogRead hw s) = Inr ()
       \<and> events (snd (handleAnalogRead hw s))
           = events s @ [HwAnalogRead (uint pin)]
             @ map StdinWrite [0x61, 0x00, 0x02, word_of_int (v div 256), word_of_int v]
             @ [StdinFlush]
       \<and> stdout_pending (snd (handleAnalogRead hw s)) = rest"
  using assms
  by (simp add: packetHandlers_def SimRxId_BUZZER_def SimRxId_DIGITAL_PIN_WRITE_def
      SimRxId_RADIO_def SimRxId_ANALOG_READ_def handleAnalogRead_def getLength_two
      stdout_read_def emit_def to_bytes_big_1 to_bytes_big_2 send_sim_packet_def
      SimTxId_ANALOG_READ_def Let_def)

theorem handleAnalogRead_reply_witness:
  "fst (handleAnalogRead hw0 (conn0\<lparr>stdout_pending := [0x00, 0x01, 0x03]\<rparr>)) = Inr ()
   \<and> events (snd (handleAnalogRead hw0 (conn0\<lparr>stdout_pending := [0x00, 0x01, 0x03]\<rparr>)))
       = [HwAnalogRead 3, StdinWrite 0x61, StdinWrite 0x00, StdinWrite 0x02,
          StdinWrite 0x02, StdinWrite 0x00, StdinFlush]"
  using handleAnalogRead_reply
    [of "conn0\<lparr>stdout_pending := [0x00, 0x01, 0x03]\<rparr>" 3 "[]" hw0 512]
  by (simp add: conn0_def hw0_def)

section \<open>Shutdown\<close>

theorem shutdown_twice_counterexample:
  "count_list (events (shutdown (shutdown conn0))) RocketKill = 2"
  by (simp add: shutdown_def emit_def conn0_def)

text \<open>
  C9 (as the code has it). \<open>shutdown\<close> never reads the guard flag: a second call leaves
  the flag set and repeats the same four teardown calls, in the same order, the kill of
  the subprocess and the join of the read-loop thread among them. Apart from the
  recorded calls the connection is as after the first call.
\<close>

theorem shutdown_twice_repeats_teardown:
  "is_shutting_down (shutdown (shutdown s)) = True
   \<and> events (shutdown (shutdown s))
       = events (shutdown s) @ [XbeeShutdown, HwShutdown, RocketKill, ThreadJoin]
   \<and> shutdown (shutdown s) = (shutdown s)\<lparr>events := events (shutdown (shutdown s))\<rparr>
   \<and> count_list (events (shutdown (shutdown s))) RocketKill
       = count_list (events (shutdown s)) RocketKill + 1"
  by (simp add: shutdown_def emit_def)

section \<open>SensorRead round trip\<close>





text \<open>
  The SensorRead response: opcode 0x73, the payload length in two bytes, and as payload
  the hardware model's reading packed by \<open>struct_pack_floats\<close> under the negotiated flag.
\<close>

lemma handleSensorRead_reply:
  assumes "stdout_pending s = [0x00, 0x01, sensor_id] @ rest"
    and "ID_TO_SENSOR sensor_id = Some kind"
    and "sensor_read hw (events s) kind = ws"
    and "payload = struct_pack_floats (bigEndianFloats s = Some True) ws"
    and "length payload < 65536"
  shows "fst (handleSensorRead hw s) = Inr ()"
    and "events (snd (handleSensorRead hw s))
           = events s @ [HwSensorRead kind]
             @ map StdinWrite
                 ([0x73, word_of_int (int (length payload) div 256),
                   word_of_int (int (length payload))] @ payload)
             @ [StdinFlush]"
  using assms
  by (simp_all add: handleSensorRead_def getLength_two stdout_read_def emit_def
      to_bytes_big_1 to_bytes_big_2 send_sim_packet_def SimTxId_SENSOR_READ_def Let_def)



section \<open>Protocol violations in the read loop\<close>

lemma stdout_read_fixed: "stdout_read n s = (got, s1) \<Longrightarrow> fixed_part s1 = fixed_part s"
  by (auto simp: stdout_read_def Let_def fixed_part_def)

lemma read_byte_fixed: "read_byte s = (r, s1) \<Longrightarrow> fixed_part s1 = fixed_part s"
  by (auto simp: read_byte_def stdout_read_def Let_def fixed_part_def split: list.splits)

lemma getLength_fixed: "getLength s = (r, s1) \<Longrightarrow> fixed_part s1 = fixed_part s"
  by (auto simp: getLength_def stdout_read_def Let_def fixed_part_def split: list.splits)

lemma send_sim_packet_fixed: "send_sim_packet i d s = (r, s1) \<Longrightarrow> fixed_part s1 = fixed_part s"
  by (auto simp: send_sim_packet_def emit_def fixed_part_def split: sum.splits)

lemma emit_fixed: "fixed_part (emit es s) = fixed_part s"
  by (simp add: emit_def fixed_part_def)

lemma handleBuzzer_fixed: "handleBuzzer s = (r, s') \<Longrightarrow> fixed_part s' = fixed_part s"
  unfolding handleBuzzer_def
  by (auto simp: log_add_def stdout_read_def Let_def fixed_part_def
      split: prod.splits sum.splits if_splits list.splits dest!: getLength_fixed)

lemma handleDigitalPinWrite_fixed:
  "handleDigitalPinWrite s = (r, s') \<Longrightarrow> fixed_part s' = fixed_part s"
  unfolding handleDigitalPinWrite_def
  by (auto simp: log_add_def emit_def stdout_read_def Let_def fixed_part_def
      split: prod.splits sum.splits if_splits list.splits dest!: getLength_fixed)

lemma handleRadio_fixed: "handleRadio s = (r, s') \<Longrightarrow> fixed_part s' = fixed_part s"
  unfolding handleRadio_def
  by (auto simp: log_add_def emit_def stdout_read_def Let_def fixed_part_def
      split: prod.splits sum.splits if_splits dest!: getLength_fixed)

lemma handleAnalogRead_fixed: "handleAnalogRead hw s = (r, s') \<Longrightarrow> fixed_part s' = fixed_part s"
  unfolding handleAnalogRead_def
  by (auto simp: emit_def stdout_read_def Let_def fixed_part_def
      split: prod.splits sum.splits if_splits list.splits
      dest!: getLength_fixed send_sim_packet_fixed)

lemma handleSensorRead_fixed: "handleSensorRead hw s = (r, s') \<Longrightarrow> fixed_part s' = fixed_part s"
  unfolding handleSensorRead_def
  by (auto simp: emit_def stdout_read_def Let_def fixed_part_def
      split: prod.splits sum.splits if_splits list.splits option.splits
      dest!: getLength_fixed send_sim_packet_fixed)

lemma call_handler_fixed: "call_handler hw h s = (r, s') \<Longrightarrow> fixed_part s' = fixed_part s"
  by (cases h)
    (auto dest: handleBuzzer_fixed handleDigitalPinWrite_fixed handleRadio_fixed
       handleAnalogRead_fixed handleSensorRead_fixed)

text \<open>
  However the loop ends, nothing but a single violation report has been added to what
  \<open>fixed_part\<close> observes.
\<close>

lemma run_loop_fixed:
  "run_loop hw s = (r, s') \<Longrightarrow>
   (case r of
      Inl e \<Rightarrow> fixed_part s' = fixed_part s
    | Inr u \<Rightarrow> (\<exists>s1. fixed_part s1 = fixed_part s \<and> s' = log_add (violation_log s1) s1))"
proof (induction hw s arbitrary: r s' rule: run_loop.induct)
  case (1 hw s)
  obtain r1 s1 where rb: "read_byte s = (r1, s1)"
    by (cases "read_byte s")
  have f1: "fixed_part s1 = fixed_part s"
    using rb by (rule read_byte_fixed)
  show ?case
  proof (cases r1)
    case (Inl e)
    with "1.prems" rb f1 show ?thesis
      by (auto simp: run_loop.simps [of hw s])
  next
    case (Inr ident)
    show ?thesis
    proof (cases "packetHandlers ident")
      case None
      with "1.prems" rb Inr f1 show ?thesis
        by (auto simp: run_loop.simps [of hw s])
    next
      case (Some h)
      obtain r2 s2 where ch: "call_handler hw h s1 = (r2, s2)"
        by (cases "call_handler hw h s1")
      have f2: "fixed_part s2 = fixed_part s"
        using call_handler_fixed [OF ch] f1 by simp
      show ?thesis
      proof (cases r2)
        case (Inl e)
        with "1.prems" rb \<open>r1 = Inr ident\<close> Some ch f2 show ?thesis
          by (auto simp: run_loop.simps [of hw s])
      next
        case (Inr u)
        have "run_loop hw s2 = (r, s')"
          using "1.prems" rb \<open>r1 = Inr ident\<close> Some ch Inr
          by (simp add: run_loop.simps [of hw s])
        from "1.IH" [OF rb [symmetric] \<open>r1 = Inr ident\<close> Some ch [symmetric] Inr this] f2
        show ?thesis
          by (auto split: sum.splits)
      qed
    qed
  qed
qed

lemma run_unknown_opcode:
  assumes "stdout_pending s = opc # rest"
    and "packetHandlers opc = None"
  shows "run hw s =
           log_add
             (violation_log
                (s\<lparr>stdout_pending := rest,
                   stdout_history := keep_last LOG_HISTORY_SIZE (stdout_history s @ [opc])\<rparr>))
             (s\<lparr>stdout_pending := rest,
                stdout_history := keep_last LOG_HISTORY_SIZE (stdout_history s @ [opc])\<rparr>)"
  using assms by (simp add: run_def run_loop.simps [of hw s] read_byte_Cons)

lemma run_fixed:
  "hwid (run hw s) = hwid s \<and> bigEndianInts (run hw s) = bigEndianInts s
   \<and> bigEndianFloats (run hw s) = bigEndianFloats s
   \<and> is_shutting_down (run hw s) = is_shutting_down s"
proof -
  obtain r s' where rl: "run_loop hw s = (r, s')"
    by (cases "run_loop hw s")
  from run_loop_fixed [OF rl] show ?thesis
    by (cases r) (auto simp: run_def rl fixed_part_def log_add_def)
qed

lemma count_list_filter_error:
  "is_error l \<Longrightarrow> count_list (filter is_error xs) l = count_list xs l"
  by (induction xs) auto

lemma count_list_hex_lines:
  "count_list (map (\<lambda>b. LogError (hex_nat (unat b))) hs) (violation_line s) = 0"
  by (induction hs) (simp_all add: hex_nat_def violation_line_def)

lemma count_list_violation_log:
  "hwid s1 = hwid s \<Longrightarrow> count_list (violation_log s1) (violation_line s) = 1"
  by (simp add: violation_log_def count_list_hex_lines)
    (simp add: violation_line_def)

lemma violation_reports_fixed:
  assumes "fixed_part s1 = fixed_part s"
  shows "count_list (logger s1) (violation_line s) = violation_reports s"
proof -
  have "count_list (filter is_error (logger s1)) (violation_line s)
          = count_list (filter is_error (logger s)) (violation_line s)"
    using assms by (simp add: fixed_part_def)
  then show ?thesis
    by (simp add: count_list_filter_error violation_line_def violation_reports_def)
qed

lemma run_violation_reports:
  "violation_reports (run hw s) = violation_reports s
   \<or> violation_reports (run hw s) = violation_reports s + 1"
proof -
  obtain r s' where rl: "run_loop hw s = (r, s')"
    by (cases "run_loop hw s")
  have vl: "violation_line (run hw s) = violation_line s"
    using run_fixed [of hw s] by (simp add: violation_line_def)
  show ?thesis
  proof (cases r)
    case (Inl e)
    with run_loop_fixed [OF rl] have fp: "fixed_part s' = fixed_part s"
      by simp
    have "violation_reports (run hw s) = count_list (logger s') (violation_line s)"
      by (simp add: violation_reports_def vl)
        (simp add: run_def rl Inl log_add_def violation_line_def)
    with violation_reports_fixed [OF fp] show ?thesis
      by simp
  next
    case (Inr u)
    with run_loop_fixed [OF rl] obtain s1 where
      fp: "fixed_part s1 = fixed_part s" and s': "s' = log_add (violation_log s1) s1"
      by auto
    have "hwid s1 = hwid s"
      using fp by (simp add: fixed_part_def)
    then have one: "count_list (violation_log s1) (violation_line s) = 1"
      by (rule count_list_violation_log)
    have "logger (run hw s) = logger s1 @ violation_log s1"
      by (simp add: run_def rl Inr s' log_add_def)
    then have "violation_reports (run hw s) = violation_reports s + 1"
      using violation_reports_fixed [OF fp] one
      by (simp add: violation_reports_def vl)
    then show ?thesis
      by simp
  qed
qed

lemma run_violation_state:
  assumes "stdout_pending s = opc # rest"
    and "packetHandlers opc = None"
  shows "logger (run hw s)
           = logger s
             @ [LogError (''SIM protocol violation!!! Shutting down. (HWID='' @ hwid s @ '')'')]
             @ map (\<lambda>b. LogError (hex_nat (unat b)))
                 (keep_last LOG_HISTORY_SIZE (stdout_history s @ [opc]))
             @ [LogError ''^^^^ violation.'']"
    and "stdout_pending (run hw s) = rest"
    and "events (run hw s) = events s"
  using assms
  by (simp_all add: run_unknown_opcode log_add_def violation_log_def getHistory_def)

text \<open>
  C4. When the read loop finds, where an opcode is due, a byte that is not a key of
  \<open>packetHandlers\<close>, it logs the violation line, one line per byte of the stream's
  buffered history (the offending byte last) and the closing line, and returns: the
  bytes after the opcode stay unread and no collaborator is called. That run has logged
  exactly one more violation report, and no run of the loop ever logs more than one.
\<close>

theorem unknown_opcode_ends_read_loop:
  assumes "stdout_pending s = opc # rest"
    and "packetHandlers opc = None"
  shows "logger (run hw s)
           = logger s
             @ [LogError (''SIM protocol violation!!! Shutting down. (HWID='' @ hwid s @ '')'')]
             @ map (\<lambda>b. LogError (hex_nat (unat b)))
                 (keep_last LOG_HISTORY_SIZE (stdout_history s @ [opc]))
             @ [LogError ''^^^^ violation.'']
       \<and> stdout_pending (run hw s) = rest
       \<and> events (run hw s) = events s
       \<and> violation_reports (run hw s) = violation_reports s + 1
       \<and> (\<forall>hw' t. violation_reports (run hw' t) \<le> violation_reports t + 1)"
proof -
  have "violation_reports (run hw s) = violation_reports s + 1"
  proof -
    have "hwid (run hw s) = hwid s"
      using run_fixed [of hw s] by simp
    then have "violation_reports (run hw s)
                 = count_list (logger (run hw s)) (violation_line s)"
      by (simp add: violation_reports_def violation_line_def)
    also have "\<dots> = violation_reports s + 1"
      by (simp add: run_violation_state(1) [OF assms] count_list_hex_lines
          violation_reports_def)
        (simp add: violation_line_def)
    finally show ?thesis .
  qed
  moreover have "\<forall>hw' t. violation_reports (run hw' t) \<le> violation_reports t + 1"
  proof (intro allI)
    fix hw' t
    from run_violation_reports [of hw' t]
    show "violation_reports (run hw' t) \<le> violation_reports t + 1"
      by auto
  qed
  ultimately show ?thesis
    using run_violation_state [OF assms] by simp
qed

theorem unknown_opcode_ends_read_loop_witness:
  "logger (run hw0 (conn0\<lparr>stdout_pending := [0xFF, 0x07, 0x00, 0x01, 0x05]\<rparr>))
     = [LogError ''SIM protocol violation!!! Shutting down. (HWID=tantalusSIM_CONN_HWID)'',
        LogError ''0xff'',
        LogError ''^^^^ violation.'']
   \<and> stdout_pending (run hw0 (conn0\<lparr>stdout_pending := [0xFF, 0x07, 0x00, 0x01, 0x05]\<rparr>))
     = [0x07, 0x00, 0x01, 0x05]
   \<and> violation_reports (run hw0 (conn0\<lparr>stdout_pending := [0xFF, 0x07, 0x00, 0x01, 0x05]\<rparr>))
     = 1"
proof -
  have a: "stdout_pending (conn0\<lparr>stdout_pending := [0xFF, 0x07, 0x00, 0x01, 0x05]\<rparr>)
             = 0xFF # [0x07, 0x00, 0x01, 0x05]"
    by simp
  have b: "packetHandlers 0xFF = None"
    by (simp add: packetHandlers_def SimRxId_BUZZER_def SimRxId_DIGITAL_PIN_WRITE_def
        SimRxId_RADIO_def SimRxId_ANALOG_READ_def SimRxId_SENSOR_READ_def)
  have h: "hex_nat 255 = ''0xff''"
    by (simp add: hex_nat_def digits_base.simps digit_char_def)
  have c: "hwid (conn0\<lparr>stdout_pending := [0xFF, 0x07, 0x00, 0x01, 0x05]\<rparr>)
             = ''tantalusSIM_CONN_HWID''"
    "logger (conn0\<lparr>stdout_pending := [0xFF, 0x07, 0x00, 0x01, 0x05]\<rparr>) = []"
    "stdout_history (conn0\<lparr>stdout_pending := [0xFF, 0x07, 0x00, 0x01, 0x05]\<rparr>) = []"
    "violation_reports (conn0\<lparr>stdout_pending := [0xFF, 0x07, 0x00, 0x01, 0x05]\<rparr>) = 0"
    by (simp_all add: conn0_def violation_reports_def)
  show ?thesis
    using unknown_opcode_ends_read_loop [OF a b, of hw0]
    by (simp add: c keep_last_def LOG_HISTORY_SIZE_def h)
qed

text \<open>
  C10. Config (0x01) is not a key of \<open>packetHandlers\<close>: a Config frame met by the read
  loop is reported as a protocol violation and ends the loop, its length and payload
  unread. No run of the read loop, whatever the stream holds, changes either endianness
  flag.
\<close>

theorem config_frame_in_read_loop_is_violation:
  assumes "stdout_pending s = SimRxId_CONFIG # rest"
  shows "packetHandlers SimRxId_CONFIG = None
       \<and> logger (run hw s)
           = logger s
             @ [LogError (''SIM protocol violation!!! Shutting down. (HWID='' @ hwid s @ '')'')]
             @ map (\<lambda>b. LogError (hex_nat (unat b)))
                 (keep_last LOG_HISTORY_SIZE (stdout_history s @ [SimRxId_CONFIG]))
             @ [LogError ''^^^^ violation.'']
       \<and> stdout_pending (run hw s) = rest
       \<and> events (run hw s) = events s
       \<and> (\<forall>hw' t. bigEndianInts (run hw' t) = bigEndianInts t
                  \<and> bigEndianFloats (run hw' t) = bigEndianFloats t)"
proof -
  have none: "packetHandlers SimRxId_CONFIG = None"
    by (simp add: packetHandlers_def SimRxId_CONFIG_def SimRxId_BUZZER_def
        SimRxId_DIGITAL_PIN_WRITE_def SimRxId_RADIO_def SimRxId_ANALOG_READ_def
        SimRxId_SENSOR_READ_def)
  show ?thesis
    using none run_violation_state [OF assms none] run_fixed by simp
qed

theorem config_frame_in_read_loop_is_violation_witness:
  "logger (run hw0 (conn0\<lparr>bigEndianInts := Some True, bigEndianFloats := Some False,
                          stdout_pending := [0x01, 0x00, 0x08, 0, 0, 0, 0, 0xC0, 0, 0, 0]\<rparr>))
     = [LogError ''SIM protocol violation!!! Shutting down. (HWID=tantalusSIM_CONN_HWID)'',
        LogError ''0x1'',
        LogError ''^^^^ violation.'']
   \<and> bigEndianInts (run hw0 (conn0\<lparr>bigEndianInts := Some True, bigEndianFloats := Some False,
                          stdout_pending := [0x01, 0x00, 0x08, 0, 0, 0, 0, 0xC0, 0, 0, 0]\<rparr>))
     = Some True
   \<and> bigEndianFloats (run hw0 (conn0\<lparr>bigEndianInts := Some True, bigEndianFloats := Some False,
                          stdout_pending := [0x01, 0x00, 0x08, 0, 0, 0, 0, 0xC0, 0, 0, 0]\<rparr>))
     = Some False"
proof -
  have a: "stdout_pending (conn0\<lparr>bigEndianInts := Some True, bigEndianFloats := Some False,
                          stdout_pending := [0x01, 0x00, 0x08, 0, 0, 0, 0, 0xC0, 0, 0, 0]\<rparr>)
             = SimRxId_CONFIG # [0x00, 0x08, 0, 0, 0, 0, 0xC0, 0, 0, 0]"
    by (simp add: SimRxId_CONFIG_def)
  have h: "hex_nat (unat (0x01 :: byte)) = ''0x1''"
    by (simp add: hex_nat_def digits_base.simps digit_char_def)
  have c: "hwid (conn0\<lparr>bigEndianInts := Some True, bigEndianFloats := Some False,
                          stdout_pending := [0x01, 0x00, 0x08, 0, 0, 0, 0, 0xC0, 0, 0, 0]\<rparr>)
             = ''tantalusSIM_CONN_HWID''"
    "logger (conn0\<lparr>bigEndianInts := Some True, bigEndianFloats := Some False,
                          stdout_pending := [0x01, 0x00, 0x08, 0, 0, 0, 0, 0xC0, 0, 0, 0]\<rparr>) = []"
    "stdout_history (conn0\<lparr>bigEndianInts := Some True, bigEndianFloats := Some False,
                          stdout_pending := [0x01, 0x00, 0x08, 0, 0, 0, 0, 0xC0, 0, 0, 0]\<rparr>) = []"
    by (simp_all add: conn0_def)
  show ?thesis
    using config_frame_in_read_loop_is_violation [OF a, of hw0] h
    by (simp add: c keep_last_def LOG_HISTORY_SIZE_def SimRxId_CONFIG_def)
qed

section \<open>The telemetry decoder\<close>

lemma header_flags:
  "header ids p = (r, p1) \<Longrightarrow>
   big_endian_ints p1 = big_endian_ints p \<and> big_endian_floats p1 = big_endian_floats p"
  by (auto simp: header_def stream_read_def plog_def Let_def
      split: list.splits if_splits sum.splits)





lemma packetTypeToParser_parser0_message:
  "packetTypeToParser (parser0 bs) 1 = Some Parse_message"
  by (simp add: parser0_def set_endianness_def PacketParser_init_def ids0_def)

lemma decode_ascii_HELLO: "decode_ascii [0x48, 0x45, 0x4C, 0x4C, 0x4F] = Inr ''HELLO''"
  by code_simp



lemma extract_pkt_time_header:
  assumes "extract_pkt ids q = (Inr d, q')"
  shows "\<exists>sid ts q1. header ids q = (Inr (sid, ts), q1)
                     \<and> d (KInt (TIME_value ids)) = Some (VInt ts)"
  using assms
  by (auto simp: extract_pkt_def split: if_splits prod.splits sum.splits)

text \<open>
  C7. Every record \<open>extract\<close> returns holds, under the key \<open>SubpacketEnum.TIME.value\<close>,
  the timestamp of the header it read. A Message subpacket (its id byte recognised and
  bound to the message parser, and other than the time key) with length byte 5 and the
  text HELLO decodes to the record with exactly two entries: the message HELLO and the
  header timestamp.
\<close>

theorem extract_stamps_header_time:
  assumes "big_endian_ints p = Some bi" and "big_endian_floats p = Some bf"
    and "uint m = MESSAGE_value ids"
    and "isSubpacketID ids (MESSAGE_value ids)"
    and "packetTypeToParser p (MESSAGE_value ids) = Some Parse_message"
    and "MESSAGE_value ids \<noteq> TIME_value ids"
    and "byte_stream p = [m, t0, t1, t2, t3, 0x05, 0x48, 0x45, 0x4C, 0x4C, 0x4F] @ rest"
  shows "fst (header ids p) = Inr (MESSAGE_value ids, unpack_I bi [t0, t1, t2, t3])
       \<and> fst (extract_pkt ids p)
           = Inr (Map.empty(KInt (MESSAGE_value ids) \<mapsto> VStr ''HELLO'',
                            KInt (TIME_value ids) \<mapsto> VInt (unpack_I bi [t0, t1, t2, t3])))
       \<and> (\<forall>q d q'. extract_pkt ids q = (Inr d, q') \<longrightarrow>
             (\<exists>sid ts q1. header ids q = (Inr (sid, ts), q1)
                          \<and> d (KInt (TIME_value ids)) = Some (VInt ts)))"
proof -
  have hd: "header ids p
              = (Inr (MESSAGE_value ids, unpack_I bi [t0, t1, t2, t3]),
                 p\<lparr>byte_stream := 0x05 # 0x48 # 0x45 # 0x4C # 0x4C # 0x4F # rest\<rparr>)"
    using assms by (simp add: header_def stream_read_def fourtoint_def Let_def)
  have pd: "parse_data ids (MESSAGE_value ids, unpack_I bi [t0, t1, t2, t3])
              (p\<lparr>byte_stream := 0x05 # 0x48 # 0x45 # 0x4C # 0x4C # 0x4F # rest\<rparr>)
            = (Inr (Map.empty(KInt (MESSAGE_value ids) \<mapsto> VStr ''HELLO'')),
               plog (LogInfo (''Incoming message: '' @ ''HELLO''))
                 (p\<lparr>byte_stream := rest\<rparr>))"
    using assms(5)
    by (simp add: parse_data_def message_def stream_read_def decode_ascii_HELLO)
  have ex: "fst (extract_pkt ids p)
           = Inr (Map.empty(KInt (MESSAGE_value ids) \<mapsto> VStr ''HELLO'',
                            KInt (TIME_value ids) \<mapsto> VInt (unpack_I bi [t0, t1, t2, t3])))"
    using assms(1,2) by (simp add: extract_pkt_def hd pd)
  show ?thesis
    using hd ex extract_pkt_time_header by auto
qed

theorem extract_stamps_header_time_witness:
  "fst (header ids0 (parser0 hello_packet)) = Inr (0x01, 42)
   \<and> fst (extract_pkt ids0 (parser0 hello_packet))
     = Inr (Map.empty(KInt 0x01 \<mapsto> VStr ''HELLO'', KInt 0x20 \<mapsto> VInt 42))"
proof -
  have a: "big_endian_ints (parser0 hello_packet) = Some True"
    "big_endian_floats (parser0 hello_packet) = Some True"
    "uint (0x01 :: byte) = MESSAGE_value ids0"
    "isSubpacketID ids0 (MESSAGE_value ids0)"
    "MESSAGE_value ids0 \<noteq> TIME_value ids0"
    "byte_stream (parser0 hello_packet)
       = [0x01, 0x00, 0x00, 0x00, 0x2A, 0x05, 0x48, 0x45, 0x4C, 0x4C, 0x4F] @ []"
    by (simp_all add: parser0_def set_endianness_def PacketParser_init_def ids0_def
        hello_packet_def)
  have b: "packetTypeToParser (parser0 hello_packet) (MESSAGE_value ids0) = Some Parse_message"
    using packetTypeToParser_parser0_message by (simp add: ids0_def)
  have c: "MESSAGE_value ids0 = 0x01" "TIME_value ids0 = 0x20"
    "unpack_I True [0x00, 0x00, 0x00, 0x2A] = 42"
    by (simp_all add: ids0_def unpack_I_def)
  show ?thesis
    using extract_stamps_header_time [OF a(1,2,3,4) b a(5,6)] c by simp
qed






end
